theory Spec2Isabelle
  imports Complex_Main "HOL-Library.Word" "HOL-Library.Sublist"
begin

section \<open>JavaScript numbers\<close>

text \<open>
  A JavaScript number is modelled as a real number or one of the three special values.
  Arithmetic on the finite values is exact: the rounding of IEEE doubles is not modelled,
  and the two zeros are one value.
\<close>

datatype jsnum = Num real | PInf | NInf | NaN

fun js_mul :: "jsnum \<Rightarrow> jsnum \<Rightarrow> jsnum" where
  "js_mul (Num a) (Num b) = Num (a * b)"
| "js_mul NaN y = NaN"
| "js_mul x NaN = NaN"
| "js_mul (Num a) y = (if a = 0 then NaN else if (0 < a) = (y = PInf) then PInf else NInf)"
| "js_mul x (Num b) = (if b = 0 then NaN else if (0 < b) = (x = PInf) then PInf else NInf)"
| "js_mul x y = (if x = y then PInf else NInf)"

fun js_div :: "jsnum \<Rightarrow> jsnum \<Rightarrow> jsnum" where
  "js_div (Num a) (Num b) =
     (if b \<noteq> 0 then Num (a / b) else if a = 0 then NaN else if 0 < a then PInf else NInf)"
| "js_div NaN y = NaN"
| "js_div x NaN = NaN"
| "js_div (Num a) y = Num 0"
| "js_div x (Num b) = (if (0 \<le> b) = (x = PInf) then PInf else NInf)"
| "js_div x y = NaN"

fun js_floor :: "jsnum \<Rightarrow> jsnum" where
  "js_floor (Num a) = Num (of_int \<lfloor>a\<rfloor>)"
| "js_floor x = x"

fun js_ceil :: "jsnum \<Rightarrow> jsnum" where
  "js_ceil (Num a) = Num (of_int \<lceil>a\<rceil>)"
| "js_ceil x = x"

fun js_abs :: "jsnum \<Rightarrow> jsnum" where
  "js_abs (Num a) = Num \<bar>a\<bar>"
| "js_abs NaN = NaN"
| "js_abs x = PInf"

fun js_max :: "jsnum \<Rightarrow> jsnum \<Rightarrow> jsnum" where
  "js_max (Num a) (Num b) = Num (max a b)"
| "js_max NaN y = NaN"
| "js_max x NaN = NaN"
| "js_max PInf y = PInf"
| "js_max x PInf = PInf"
| "js_max NInf y = y"
| "js_max x NInf = x"

fun js_lt :: "jsnum \<Rightarrow> jsnum \<Rightarrow> bool" where
  "js_lt (Num a) (Num b) = (a < b)"
| "js_lt NaN y = False"
| "js_lt x NaN = False"
| "js_lt PInf y = False"
| "js_lt NInf y = (y \<noteq> NInf)"
| "js_lt (Num a) y = (y = PInf)"

definition js_le :: "jsnum \<Rightarrow> jsnum \<Rightarrow> bool" where
  "js_le x y = (js_lt x y \<or> (x = y \<and> x \<noteq> NaN))"

definition js_gt :: "jsnum \<Rightarrow> jsnum \<Rightarrow> bool" where
  "js_gt x y = js_lt y x"

definition js_ge :: "jsnum \<Rightarrow> jsnum \<Rightarrow> bool" where
  "js_ge x y = js_le y x"

text \<open>Truthiness of a number, and \<open>x || y\<close> on numbers.\<close>

fun truthy_num :: "jsnum \<Rightarrow> bool" where
  "truthy_num (Num a) = (a \<noteq> 0)"
| "truthy_num NaN = False"
| "truthy_num x = True"

definition js_or :: "jsnum \<Rightarrow> jsnum \<Rightarrow> jsnum" where
  "js_or x y = (if truthy_num x then x else y)"

section \<open>Reading numbers from the values of form controls\<close>

text \<open>
  The value of a form control is a string. \<open>parseInt\<close> (without a radix) and
  \<open>parseFloat\<close> read the longest numeric prefix after leading white space, and give
  \<open>NaN\<close> when there is none.
\<close>

definition is_space :: "char \<Rightarrow> bool" where
  "is_space c = (c \<in> set [CHR 0x09, CHR 0x0A, CHR 0x0B, CHR 0x0C, CHR 0x0D, CHR 0x20])"

definition is_digit :: "char \<Rightarrow> bool" where
  "is_digit c = (c \<in> set ''0123456789'')"

definition is_hex_digit :: "char \<Rightarrow> bool" where
  "is_hex_digit c = (c \<in> set ''0123456789abcdefABCDEF'')"

definition digit_val :: "char \<Rightarrow> nat" where
  "digit_val c =
     (if c \<in> set ''0123456789'' then of_char c - 48
      else if c \<in> set ''abcdef'' then of_char c - 87
      else of_char c - 55)"

definition digits_val :: "nat \<Rightarrow> string \<Rightarrow> nat" where
  "digits_val radix ds = foldl (\<lambda>n c. radix * n + digit_val c) 0 ds"

definition is_sign :: "string \<Rightarrow> bool" where
  "is_sign t = (take 1 t = ''-'' \<or> take 1 t = ''+'')"

definition signed :: "string \<Rightarrow> real \<Rightarrow> real" where
  "signed t x = (if take 1 t = ''-'' then - x else x)"

definition parseInt :: "string \<Rightarrow> jsnum" where
  "parseInt s =
     (let t = dropWhile is_space s;
          u = (if is_sign t then drop 1 t else t);
          hex = (take 2 u = ''0x'' \<or> take 2 u = ''0X'');
          ds = (if hex then takeWhile is_hex_digit (drop 2 u) else takeWhile is_digit u)
      in if ds = [] then NaN
         else Num (signed t (real (digits_val (if hex then 16 else 10) ds))))"

definition exponent :: "string \<Rightarrow> int" where
  "exponent r =
     (if take 1 r = ''e'' \<or> take 1 r = ''E'' then
        (let r' = drop 1 r;
             es = takeWhile is_digit (if is_sign r' then drop 1 r' else r')
         in if take 1 r' = ''-'' then - int (digits_val 10 es) else int (digits_val 10 es))
      else 0)"

definition scale10 :: "real \<Rightarrow> int \<Rightarrow> real" where
  "scale10 m e = (if 0 \<le> e then m * 10 ^ nat e else m / 10 ^ nat (- e))"

definition parseFloat :: "string \<Rightarrow> jsnum" where
  "parseFloat s =
     (let t = dropWhile is_space s;
          u = (if is_sign t then drop 1 t else t)
      in if take 8 u = ''Infinity'' then (if take 1 t = ''-'' then NInf else PInf)
         else
           (let ip = takeWhile is_digit u;
                r1 = dropWhile is_digit u;
                dot = (take 1 r1 = ''.'');
                fp = (if dot then takeWhile is_digit (drop 1 r1) else []);
                r2 = (if dot then dropWhile is_digit (drop 1 r1) else r1)
            in if ip = [] \<and> fp = [] then NaN
               else Num (signed t
                      (scale10 (real (digits_val 10 (ip @ fp)) / 10 ^ length fp) (exponent r2)))))"

section \<open>Text\<close>

text \<open>
  A JavaScript string is a sequence of UTF-16 code units; \<open>text.length\<close> is the number
  of code units. A text given as Unicode scalar values is encoded with one unit for a
  scalar value of the Basic Multilingual Plane and a surrogate pair for any other.
\<close>

type_synonym utf16 = "16 word list"

definition utf16_unit :: "nat \<Rightarrow> utf16" where
  "utf16_unit cp =
     (if cp < 0x10000 then [of_nat cp]
      else [of_nat (0xD800 + (cp - 0x10000) div 0x400), of_nat (0xDC00 + (cp - 0x10000) mod 0x400)])"

definition utf16_encode :: "nat list \<Rightarrow> utf16" where
  "utf16_encode cps = concat (map utf16_unit cps)"

definition u16 :: "string \<Rightarrow> utf16" where
  "u16 s = map (\<lambda>c. of_nat (of_char c)) s"

text \<open>The white space of \<open>String.prototype.trim\<close> and of the pattern \<open>\s\<close>.\<close>

definition is_ws :: "16 word \<Rightarrow> bool" where
  "is_ws c =
     (c \<in> {0x9, 0xA, 0xB, 0xC, 0xD, 0x20, 0xA0, 0x1680, 0x2028, 0x2029, 0x202F, 0x205F,
            0x3000, 0xFEFF}
      \<or> (0x2000 \<le> c \<and> c \<le> 0x200A))"

definition trim :: "utf16 \<Rightarrow> utf16" where
  "trim t = rev (dropWhile is_ws (rev (dropWhile is_ws t)))"

text \<open>
  \<open>text.split(/\s+/)\<close>: the scan keeps the segment read so far (reversed); a match of
  the pattern at the current position closes the segment and consumes the whole run.
\<close>

function splitWs :: "utf16 \<Rightarrow> utf16 \<Rightarrow> utf16 list" where
  "splitWs seg [] = [rev seg]"
| "splitWs seg (c # cs) =
     (if is_ws c then rev seg # splitWs [] (dropWhile is_ws cs) else splitWs (c # seg) cs)"
  by pat_completeness auto
termination
  by (relation "measure (\<lambda>(seg, t). length t)") (auto simp: length_dropWhile_le less_Suc_eq_le)

definition split_ws :: "utf16 \<Rightarrow> utf16 list" where
  "split_ws t = splitWs [] t"

text \<open>\<open>text.split(sep)\<close> for a separator of one code unit.\<close>

fun split_unit :: "'a \<Rightarrow> 'a list \<Rightarrow> 'a list list" where
  "split_unit sep [] = [[]]"
| "split_unit sep (c # cs) =
     (if c = sep then [] # split_unit sep cs
      else (case split_unit sep cs of [] \<Rightarrow> [[c]] | seg # segs \<Rightarrow> (c # seg) # segs))"

text \<open>\<open>text.includes(s)\<close>.\<close>

fun str_includes :: "'a list \<Rightarrow> 'a list \<Rightarrow> bool" where
  "str_includes [] s = (s = [])"
| "str_includes (c # cs) s = (take (length s) (c # cs) = s \<or> str_includes cs s)"

section \<open>The engine and the page\<close>

text \<open>
  The fields of \<open>FontRenderingEngine\<close> that the computations read or write. The set of
  active features is kept as the list of its members in insertion order.
\<close>

record engine =
  currentAlignment :: string
  activeFeatures :: "string list"
  layoutOptimization :: bool
  hyphenation :: bool
  layoutScore :: int

definition set_add :: "string \<Rightarrow> string list \<Rightarrow> string list" where
  "set_add f fs = (if f \<in> set fs then fs else fs @ [f])"

definition set_delete :: "string \<Rightarrow> string list \<Rightarrow> string list" where
  "set_delete f fs = removeAll f fs"

definition new_engine :: engine where
  "new_engine =
     \<lparr>currentAlignment = ''left'', activeFeatures = [''kerning''],
      layoutOptimization = False, hyphenation = False, layoutScore = 100\<rparr>"

text \<open>
  The page: the values of the six form controls, read with
  \<open>document.getElementById(id).value\<close>, and the measured width of the rendering element.
  The page itself is not part of the source; its controls are taken as given.
\<close>

record page =
  fontSelect_value :: string
  fontSize_value :: string
  fontWeight_value :: string
  letterSpacing_value :: string
  lineHeight_value :: string
  wordSpacing_value :: string
  offsetWidth :: nat

record controls =
  fontFamily :: string
  fontSize :: string
  fontWeight :: string
  letterSpacing :: string
  lineHeight :: string
  wordSpacing :: string

definition or_default :: "string \<Rightarrow> string \<Rightarrow> string" where
  "or_default v d = (if v = [] then d else v)"

definition getControlValues :: "page \<Rightarrow> controls" where
  "getControlValues p =
     \<lparr>fontFamily = or_default (fontSelect_value p) ''serif'',
      fontSize = or_default (fontSize_value p) ''18'',
      fontWeight = or_default (fontWeight_value p) ''400'',
      letterSpacing = or_default (letterSpacing_value p) ''0'',
      lineHeight = or_default (lineHeight_value p) ''1.4'',
      wordSpacing = or_default (wordSpacing_value p) ''0''\<rparr>"

section \<open>Layout score\<close>

definition commonLigatures :: "utf16 list" where
  "commonLigatures = map u16 [''fi'', ''fl'', ''ff'', ''ffi'', ''ffl'']"

definition hasCommonLigatures :: "utf16 \<Rightarrow> bool" where
  "hasCommonLigatures text = list_ex (\<lambda>lig. str_includes text lig) commonLigatures"

definition calculateLayoutScore :: "engine \<Rightarrow> page \<Rightarrow> utf16 \<Rightarrow> engine" where
  "calculateLayoutScore e p text =
     (let score0 = (100 :: int);
          avgLineLength =
            js_div (Num (real (length text)))
                   (js_or (Num (real (length (split_unit 0x0A text)))) (Num 1));
          score1 = (if js_gt avgLineLength (Num 80) then score0 - 10 else score0);
          lineHeight = parseFloat (lineHeight_value p);
          score2 = (if js_ge lineHeight (Num 1.4) \<and> js_le lineHeight (Num 1.6)
                    then score1 + 5 else score1);
          score3 = (if ''ligatures'' \<in> set (activeFeatures e) \<and> hasCommonLigatures text
                    then score2 + 5 else score2);
          letterSpacing = parseFloat (letterSpacing_value p);
          score4 = (if js_gt (js_abs letterSpacing) (Num 2) then score3 - 5 else score3)
      in e\<lparr>layoutScore := max 0 (min 100 score4)\<rparr>)"

section \<open>Text metrics\<close>

record metrics =
  characters :: nat
  words :: nat
  lines :: jsnum

definition calculateTextMetrics :: "page \<Rightarrow> utf16 \<Rightarrow> metrics" where
  "calculateTextMetrics p text =
     (let words = (if trim text = [] then 0 else length (split_ws (trim text)));
          containerWidth = Num (real (offsetWidth p));
          fontSize = parseInt (fontSize_value p);
          avgCharWidth = js_mul fontSize (Num 0.6);
          charsPerLine = js_or (js_floor (js_div containerWidth avgCharWidth)) (Num 1);
          lines = js_or (js_ceil (js_div (Num (real (length text))) charsPerLine)) (Num 1)
      in \<lparr>characters = length text, words = words, lines = lines\<rparr>)"

section \<open>Feature table\<close>

text \<open>
  A value read from an object by key: \<open>undefined\<close>, a string, or an object or function,
  kept with the text that its conversion to a string yields.
\<close>

datatype jsval = JUndefined | JString string | JObject string

fun truthy :: "jsval \<Rightarrow> bool" where
  "truthy JUndefined = False"
| "truthy (JString s) = (s \<noteq> [])"
| "truthy (JObject s) = True"

fun to_string :: "jsval \<Rightarrow> string" where
  "to_string JUndefined = []"
| "to_string (JString s) = s"
| "to_string (JObject s) = s"

definition featureTable :: "(string \<times> string) list" where
  "featureTable =
     [(''kerning'', ''\"kern\" 1''),
      (''ligatures'', ''\"liga\" 1, \"clig\" 1''),
      (''smallCaps'', ''\"smcp\" 1''),
      (''oldstyleNums'', ''\"onum\" 1''),
      (''tabularNums'', ''\"tnum\" 1, \"lnum\" 1''),
      (''fractions'', ''\"frac\" 1'')]"

text \<open>
  \<open>featureMap\<close> is an object literal, so a key that is not its own is looked up in
  \<open>Object.prototype\<close>, whose members are functions (and, for \<open>__proto__\<close>, the
  prototype object itself).
\<close>

definition objectPrototype :: "string \<Rightarrow> jsval" where
  "objectPrototype k =
     (if k = ''__proto__'' then JObject ''[object Object]''
      else if k = ''constructor'' then JObject ''function Object() { [native code] }''
      else if k \<in> set [''__defineGetter__'', ''__defineSetter__'', ''hasOwnProperty'',
                        ''__lookupGetter__'', ''__lookupSetter__'', ''isPrototypeOf'',
                        ''propertyIsEnumerable'', ''toString'', ''valueOf'', ''toLocaleString'']
      then JObject (''function '' @ k @ ''() { [native code] }'')
      else JUndefined)"

definition featureMap :: "string \<Rightarrow> jsval" where
  "featureMap k =
     (case map_of featureTable k of Some v \<Rightarrow> JString v | None \<Rightarrow> objectPrototype k)"

text \<open>\<open>array.join(sep)\<close> on the strings of the elements.\<close>

fun join :: "string \<Rightarrow> string list \<Rightarrow> string" where
  "join sep [] = []"
| "join sep [x] = x"
| "join sep (x # y # ys) = x @ sep @ join sep (y # ys)"

section \<open>Live style\<close>

text \<open>
  The inline style of the rendering element, as a map from CSS property names to values:
  the assignment \<open>style.fontFamily = v\<close> sets the property \<open>font-family\<close>, and so on.
  Values are stored as assigned.
\<close>

type_synonym style = "string \<rightharpoonup> string"

definition applyBasicStyling :: "controls \<Rightarrow> engine \<Rightarrow> style \<Rightarrow> style" where
  "applyBasicStyling c e st =
     st(''font-family'' \<mapsto> fontFamily c,
        ''font-size'' \<mapsto> fontSize c @ ''px'',
        ''font-weight'' \<mapsto> fontWeight c,
        ''letter-spacing'' \<mapsto> letterSpacing c @ ''px'',
        ''line-height'' \<mapsto> lineHeight c,
        ''word-spacing'' \<mapsto> wordSpacing c @ ''px'',
        ''text-align'' \<mapsto> currentAlignment e)"

definition applyOpenTypeFeatures :: "engine \<Rightarrow> style \<Rightarrow> style" where
  "applyOpenTypeFeatures e st =
     (let features =
            foldl (\<lambda>features feature.
                     if truthy (featureMap feature) then features @ [featureMap feature]
                     else features)
                  [] (activeFeatures e);
          joined = join '', '' (map to_string features)
      in st(''font-feature-settings'' \<mapsto> (if joined \<noteq> [] then joined else ''normal'')))"

definition hyphen :: string where
  "hyphen = [CHR 0xE2, CHR 0x80, CHR 0x90]"

definition applyLayoutOptimizations :: "engine \<Rightarrow> page \<Rightarrow> utf16 \<Rightarrow> style \<Rightarrow> engine \<times> style" where
  "applyLayoutOptimizations e p text st =
     (let st1 = (if hyphenation e
                 then st(''hyphens'' \<mapsto> ''auto'', ''hyphenate-character'' \<mapsto> hyphen)
                 else st(''hyphens'' \<mapsto> ''manual''));
          st2 = (if layoutOptimization e
                 then st1(''text-rendering'' \<mapsto> ''optimizeLegibility'',
                          ''font-optical-sizing'' \<mapsto> ''auto'',
                          ''font-variant-ligatures'' \<mapsto> ''common-ligatures contextual'')
                 else st1(''text-rendering'' \<mapsto> ''auto'',
                          ''font-optical-sizing'' \<mapsto> ''none'',
                          ''font-variant-ligatures'' \<mapsto> ''normal''))
      in (calculateLayoutScore e p text, st2))"

definition placeholder :: utf16 where
  "placeholder = u16 ''Type your text here to see advanced font rendering...''"

definition updateRendering :: "engine \<Rightarrow> page \<Rightarrow> utf16 \<Rightarrow> style \<Rightarrow> engine \<times> style \<times> metrics" where
  "updateRendering e p input st =
     (let text = (if input \<noteq> [] then input else placeholder);
          controls = getControlValues p;
          st1 = applyBasicStyling controls e st;
          st2 = applyOpenTypeFeatures e st1;
          (e', st3) = applyLayoutOptimizations e p text st2
      in (e', st3, calculateTextMetrics p text))"

text \<open>The style that one rendering pass gives an element that had no inline style.\<close>

definition projectLiveStyle :: "engine \<Rightarrow> page \<Rightarrow> utf16 \<Rightarrow> style" where
  "projectLiveStyle e p input = fst (snd (updateRendering e p input Map.empty))"

section \<open>CSS export\<close>

text \<open>
  The text of a number in a template literal. For a finite value this is its decimal
  expansion, cut after twenty fractional digits.
\<close>

definition digit_char :: "nat \<Rightarrow> char" where
  "digit_char d = ''0123456789'' ! (d mod 10)"

fun digits_of :: "nat \<Rightarrow> string" where
  "digits_of n = (if n < 10 then [digit_char n] else digits_of (n div 10) @ [digit_char (n mod 10)])"

fun frac_digits :: "nat \<Rightarrow> real \<Rightarrow> string" where
  "frac_digits k f =
     (if k = 0 \<or> f = 0 then []
      else digit_char (nat \<lfloor>10 * f\<rfloor>) # frac_digits (k - 1) (10 * f - of_int \<lfloor>10 * f\<rfloor>))"

declare digits_of.simps [simp del]

declare frac_digits.simps [simp del]

fun numberToString :: "jsnum \<Rightarrow> string" where
  "numberToString NaN = ''NaN''"
| "numberToString PInf = ''Infinity''"
| "numberToString NInf = ''-Infinity''"
| "numberToString (Num r) =
     (if r < 0 then ''-'' else []) @ digits_of (nat \<lfloor>\<bar>r\<bar>\<rfloor>)
       @ (if \<bar>r\<bar> = of_int \<lfloor>\<bar>r\<bar>\<rfloor> then []
          else ''.'' @ frac_digits 20 (\<bar>r\<bar> - of_int \<lfloor>\<bar>r\<bar>\<rfloor>))"

text \<open>A template literal, given by its physical lines.\<close>

definition template :: "string list \<Rightarrow> string" where
  "template ls = join [CHR 0x0A] ls"

text \<open>The constant \<open>fontFeatures\<close> of \<open>generateCSS\<close>.\<close>

definition fontFeatures :: "string list \<Rightarrow> string" where
  "fontFeatures features = join '', '' (map to_string (filter truthy (map featureMap features)))"

definition generateCSS :: "controls \<Rightarrow> engine \<Rightarrow> string list \<Rightarrow> string" where
  "generateCSS controls e features =
     (let fontFeatures = fontFeatures features
      in template
        [''/* Advanced Font Rendering Styles */'',
         ''.custom-typography {'',
         ''    font-family: '' @ fontFamily controls @ '';'',
         ''    font-size: '' @ fontSize controls @ ''px;'',
         ''    font-weight: '' @ fontWeight controls @ '';'',
         ''    letter-spacing: '' @ letterSpacing controls @ ''px;'',
         ''    line-height: '' @ lineHeight controls @ '';'',
         ''    word-spacing: '' @ wordSpacing controls @ ''px;'',
         ''    text-align: '' @ currentAlignment e @ '';'',
         ''    '' @ (if fontFeatures \<noteq> [] then ''font-feature-settings: '' @ fontFeatures @ '';''
                     else []),
         ''    '' @ (if hyphenation e then ''hyphens: auto;'' else []),
         ''    '' @ (if layoutOptimization e
                     then template
                       [[],
                        ''    text-rendering: optimizeLegibility;'',
                        ''    font-optical-sizing: auto;'',
                        ''    font-variant-ligatures: common-ligatures contextual;'']
                     else []),
         ''}'',
         [],
         ''/* Responsive adjustments */'',
         ''@media (max-width: 768px) {'',
         ''    .custom-typography {'',
         ''        font-size: ''
           @ numberToString (js_max (Num 14) (js_mul (parseInt (fontSize controls)) (Num 0.9)))
           @ ''px;'',
         ''        line-height: ''
           @ numberToString (js_max (Num 1.2)
               (js_mul (parseFloat (lineHeight controls)) (Num 0.95)))
           @ '';'',
         ''    }'',
         ''}'',
         [],
         ''@media (max-width: 480px) {'',
         ''    .custom-typography {'',
         ''        font-size: ''
           @ numberToString (js_max (Num 12) (js_mul (parseInt (fontSize controls)) (Num 0.8)))
           @ ''px;'',
         ''        letter-spacing: ''
           @ numberToString (js_max (Num 0)
               (js_mul (parseFloat (letterSpacing controls)) (Num 0.8)))
           @ ''px;'',
         ''    }'',
         ''}''])"

definition exportCSS :: "engine \<Rightarrow> page \<Rightarrow> string" where
  "exportCSS e p = generateCSS (getControlValues p) e (activeFeatures e)"

section \<open>Reading declarations back from CSS text\<close>

text \<open>
  The declarations of a block of the exported text: the lines that follow the line
  \<open>header\<close>, up to the first line that only closes a block; a line \<open>name: value;\<close>
  is a declaration, any other line is skipped.
\<close>

definition unindent :: "string \<Rightarrow> string" where
  "unindent l = dropWhile (\<lambda>c. c = CHR '' '') l"

definition declaration_value :: "string \<Rightarrow> string" where
  "declaration_value r =
     (let v = (if take 1 r = '' '' then drop 1 r else r)
      in if v \<noteq> [] \<and> last v = CHR '';'' then butlast v else v)"

definition parse_declaration :: "string \<Rightarrow> (string \<times> string) list" where
  "parse_declaration l =
     (let t = unindent l
      in if CHR '':'' \<in> set t
         then [(takeWhile (\<lambda>c. c \<noteq> CHR '':'') t,
                declaration_value (drop 1 (dropWhile (\<lambda>c. c \<noteq> CHR '':'') t)))]
         else [])"

definition block_declarations :: "string \<Rightarrow> string \<Rightarrow> (string \<times> string) list" where
  "block_declarations header css =
     concat (map parse_declaration
       (takeWhile (\<lambda>l. unindent l \<noteq> ''}'')
          (drop 1 (dropWhile (\<lambda>l. l \<noteq> header) (split_unit (CHR 0x0A) css)))))"

definition main_rule :: string where
  "main_rule = ''.custom-typography {''"



text \<open>
  The exported text is read back line by line, so the values written into it must not
  contain a line break.
\<close>

definition single_line :: "string \<Rightarrow> bool" where
  "single_line s = (CHR 0x0A \<notin> set s)"

definition plain_controls :: "controls \<Rightarrow> bool" where
  "plain_controls c =
     (single_line (fontFamily c) \<and> single_line (fontSize c) \<and> single_line (fontWeight c)
      \<and> single_line (letterSpacing c) \<and> single_line (lineHeight c)
      \<and> single_line (wordSpacing c))"

definition plain_page :: "page \<Rightarrow> bool" where
  "plain_page p =
     (single_line (fontSelect_value p) \<and> single_line (fontSize_value p)
      \<and> single_line (fontWeight_value p) \<and> single_line (letterSpacing_value p)
      \<and> single_line (lineHeight_value p) \<and> single_line (wordSpacing_value p))"


section \<open>The quantities of the specification\<close>

text \<open>
  The definitions of this section follow the words of the specification, not the code;
  the properties below compare the code with them.
\<close>

text \<open>The layout score: 100, four independent adjustments, then the clamp.\<close>

definition spec_layoutScore :: "nat \<Rightarrow> nat \<Rightarrow> real \<Rightarrow> real \<Rightarrow> bool \<Rightarrow> int" where
  "spec_layoutScore chars newlines lh ls ligatureBonus =
     max 0 (min 100
       (100 - (if real chars / real (max 1 (newlines + 1)) > 80 then 10 else 0)
            + (if 1.4 \<le> lh \<and> lh \<le> 1.6 then 5 else 0)
            + (if ligatureBonus then 5 else 0)
            - (if \<bar>ls\<bar> > 2 then 5 else 0)))"

definition spec_ligatureBonus :: "string list \<Rightarrow> utf16 \<Rightarrow> bool" where
  "spec_ligatureBonus features text =
     (''ligatures'' \<in> set features
      \<and> (\<exists>lig \<in> set (map u16 [''fi'', ''fl'', ''ff'', ''ffi'', ''ffl'']). sublist lig text))"

text \<open>The line estimate, with both floors at 1.\<close>

definition spec_charsPerLine :: "real \<Rightarrow> real \<Rightarrow> int" where
  "spec_charsPerLine containerWidthPx fontSizePx =
     max 1 \<lfloor>containerWidthPx / (fontSizePx * 0.6)\<rfloor>"

definition spec_lines :: "nat \<Rightarrow> real \<Rightarrow> real \<Rightarrow> int" where
  "spec_lines chars containerWidthPx fontSizePx =
     max 1 \<lceil>real chars / real_of_int (spec_charsPerLine containerWidthPx fontSizePx)\<rceil>"

text \<open>
  The word count: the segments between runs of white space, counted on the trimmed text.
\<close>

function segments :: "utf16 \<Rightarrow> utf16 list" where
  "segments t =
     (case dropWhile (\<lambda>c. \<not> is_ws c) t of
        [] \<Rightarrow> [t]
      | r # rs \<Rightarrow> takeWhile (\<lambda>c. \<not> is_ws c) t # segments (dropWhile is_ws rs))"
  by pat_completeness auto
termination
proof (relation "measure length")
  fix t :: utf16 and r rs
  assume "dropWhile (\<lambda>c. \<not> is_ws c) t = r # rs"
  then have "length (r # rs) \<le> length t"
    by (metis length_dropWhile_le)
  moreover have "length (dropWhile is_ws rs) \<le> length rs"
    by (rule length_dropWhile_le)
  ultimately show "(dropWhile is_ws rs, t) \<in> measure length"
    by simp
qed simp

declare segments.simps [simp del]

definition spec_words :: "utf16 \<Rightarrow> nat" where
  "spec_words text = (if trim text = [] then 0 else length (segments (trim text)))"

text \<open>The six feature tags and the fixed table of their settings.\<close>

datatype FeatureTag = Kerning | Ligatures | SmallCaps | OldstyleNums | TabularNums | Fractions

fun tag_name :: "FeatureTag \<Rightarrow> string" where
  "tag_name Kerning = ''kerning''"
| "tag_name Ligatures = ''ligatures''"
| "tag_name SmallCaps = ''smallCaps''"
| "tag_name OldstyleNums = ''oldstyleNums''"
| "tag_name TabularNums = ''tabularNums''"
| "tag_name Fractions = ''fractions''"

fun spec_featureTable :: "FeatureTag \<Rightarrow> string" where
  "spec_featureTable Kerning = ''\"kern\" 1''"
| "spec_featureTable Ligatures = ''\"liga\" 1, \"clig\" 1''"
| "spec_featureTable SmallCaps = ''\"smcp\" 1''"
| "spec_featureTable OldstyleNums = ''\"onum\" 1''"
| "spec_featureTable TabularNums = ''\"tnum\" 1, \"lnum\" 1''"
| "spec_featureTable Fractions = ''\"frac\" 1''"

definition spec_fontFeatureSettings :: "FeatureTag list \<Rightarrow> string" where
  "spec_fontFeatureSettings tags =
     (if tags = [] then ''normal'' else join '', '' (map spec_featureTable tags))"

text \<open>
  The rule block has the same properties as the live style when each property with its
  value stands in one exactly if it stands in the other.
\<close>

definition same_properties :: "(string \<times> string) list \<Rightarrow> style \<Rightarrow> bool" where
  "same_properties decls st = (\<forall>prop value. ((prop, value) \<in> set decls) = (st prop = Some value))"








text \<open>A page whose controls hold their default values, for the examples.\<close>

definition sample_page :: page where
  "sample_page =
     \<lparr>fontSelect_value = ''serif'', fontSize_value = ''18'', fontWeight_value = ''400'',
      letterSpacing_value = ''0'', lineHeight_value = ''1.4'', wordSpacing_value = ''0'',
      offsetWidth = 600\<rparr>"

section \<open>Evaluation of the number readers\<close>

lemmas parse_defs =
  parseInt_def parseFloat_def Let_def is_space_def is_sign_def is_digit_def is_hex_digit_def
  signed_def digits_val_def digit_val_def scale10_def exponent_def

section \<open>Properties of the layout score\<close>

lemma length_split_unit: "length (split_unit sep t) = count_list t sep + 1"
  by (induction t) (auto split: list.splits)

lemma str_includes_sublist: "str_includes t s = sublist s t"
proof (induction t)
  case Nil
  then show ?case by auto
next
  case (Cons c cs)
  have "take (length s) (c # cs) = s \<longleftrightarrow> prefix s (c # cs)"
    by (metis append_eq_conv_conj prefix_def append_take_drop_id)
  then show ?case using Cons by (simp add: sublist_Cons_right)
qed

lemma hasCommonLigatures_sublist:
  "hasCommonLigatures text =
     (\<exists>lig \<in> set (map u16 [''fi'', ''fl'', ''ff'', ''ffi'', ''ffl'']). sublist lig text)"
  by (simp add: hasCommonLigatures_def commonLigatures_def str_includes_sublist list_ex_iff
      del: str_includes.simps)

lemma js_compare_Num:
  "js_gt (Num a) (Num b) = (b < a)"
  "js_ge (Num a) (Num b) = (b \<le> a)"
  "js_le (Num a) (Num b) = (a \<le> b)"
  by (auto simp: js_gt_def js_ge_def js_le_def)

lemma avgLineLength_Num:
  "js_div (Num (real (length text))) (js_or (Num (real (length (split_unit sep text)))) (Num 1))
     = Num (real (length text) / real (max 1 (count_list text sep + 1)))"
  by (simp add: js_or_def length_split_unit)

text \<open>
  C3. With the line height and letter spacing that the controls hold, the layout score is
  the value of the specification: start at 100, subtract 10 when the characters divided by
  (newline count + 1) exceed 80, add 5 for a line height in [1.4, 1.6], add 5 when
  ligatures is active and the text contains one of fi, fl, ff, ffi, ffl, subtract 5 when
  the letter spacing exceeds 2 in absolute value, clamp to [0, 100]. The score is always
  in [0, 100].
\<close>

theorem layoutScore_spec:
  assumes "parseFloat (lineHeight_value p) = Num lh"
    and "parseFloat (letterSpacing_value p) = Num ls"
  shows "layoutScore (calculateLayoutScore e p text) =
           spec_layoutScore (characters (calculateTextMetrics p text)) (count_list text 0x0A)
             lh ls (spec_ligatureBonus (activeFeatures e) text)
         \<and> 0 \<le> layoutScore (calculateLayoutScore e p text)
         \<and> layoutScore (calculateLayoutScore e p text) \<le> 100"
proof -
  have chars: "characters (calculateTextMetrics p text) = length text"
    by (simp add: calculateTextMetrics_def Let_def)
  have lig: "(''ligatures'' \<in> set (activeFeatures e) \<and> hasCommonLigatures text)
      = spec_ligatureBonus (activeFeatures e) text"
    by (simp only: spec_ligatureBonus_def hasCommonLigatures_sublist)
  have "layoutScore (calculateLayoutScore e p text) =
      spec_layoutScore (length text) (count_list text 0x0A) lh ls
        (spec_ligatureBonus (activeFeatures e) text)"
    unfolding calculateLayoutScore_def Let_def assms avgLineLength_Num lig js_abs.simps
      js_compare_Num spec_layoutScore_def
    by simp
  then show ?thesis
    unfolding chars by (simp add: spec_layoutScore_def)
qed

theorem layoutScore_spec_witness:
  "layoutScore
     (calculateLayoutScore (new_engine\<lparr>activeFeatures := [''kerning'', ''ligatures'']\<rparr>)
        (sample_page\<lparr>lineHeight_value := ''1.5'', letterSpacing_value := ''-3''\<rparr>)
        (u16 ''office traffic'')) = 100"
proof -
  let ?p = "sample_page\<lparr>lineHeight_value := ''1.5'', letterSpacing_value := ''-3''\<rparr>"
  let ?e = "new_engine\<lparr>activeFeatures := [''kerning'', ''ligatures'']\<rparr>"
  have h1: "parseFloat (lineHeight_value ?p) = Num (3 / 2)"
    by (simp add: sample_page_def parse_defs)
  have h2: "parseFloat (letterSpacing_value ?p) = Num (- 3)"
    by (simp add: sample_page_def parse_defs)
  have "spec_ligatureBonus (activeFeatures ?e) (u16 ''office traffic'')"
    by (simp add: spec_ligatureBonus_def str_includes_sublist[symmetric] u16_def)
  then show ?thesis
    using layoutScore_spec[OF h1 h2, of ?e "u16 ''office traffic''"]
    by (simp add: spec_layoutScore_def calculateTextMetrics_def u16_def Let_def)
qed

text \<open>
  C9. For every text, every state of the engine and every page, the layout score is at
  least 85 and at most 100: the two penalties take at most 15 from the starting value 100,
  so the lower clamp at 0 is never reached.
\<close>

theorem layoutScore_at_least_85:
  "85 \<le> layoutScore (calculateLayoutScore e p text)
   \<and> layoutScore (calculateLayoutScore e p text) \<le> 100"
  by (simp add: calculateLayoutScore_def Let_def)

theorem layoutScore_at_least_85_witness:
  "85 \<le> layoutScore
            (calculateLayoutScore new_engine (sample_page\<lparr>letterSpacing_value := ''3''\<rparr>)
               (replicate 100 0x61))
   \<and> layoutScore
        (calculateLayoutScore new_engine (sample_page\<lparr>letterSpacing_value := ''3''\<rparr>)
           (replicate 100 0x61)) \<le> 100"
  by (rule layoutScore_at_least_85)

section \<open>Properties of the text metrics\<close>

text \<open>
  C2 (as amended). The character count is the number of UTF-16 code units of the text:
  for a text given by its Unicode scalar values it is the number of scalar values plus
  one more for each scalar value outside the Basic Multilingual Plane.
\<close>

theorem characters_code_units:
  "characters (calculateTextMetrics p text) = length text
   \<and> characters (calculateTextMetrics p (utf16_encode cps))
       = length cps + length (filter (\<lambda>cp. 0x10000 \<le> cp) cps)"
proof -
  have "length (utf16_encode cps) = length cps + length (filter (\<lambda>cp. 0x10000 \<le> cp) cps)"
    by (induction cps) (auto simp: utf16_encode_def utf16_unit_def)
  then show ?thesis
    by (simp add: calculateTextMetrics_def Let_def)
qed

theorem characters_code_units_witness:
  "characters (calculateTextMetrics sample_page (utf16_encode [0x68, 0x69, 0x1F600])) = 4"
  using characters_code_units[of sample_page "[]" "[0x68, 0x69, 0x1F600]"]
  by simp

text \<open>
  C2 as stated fails: the text of the single scalar value U+1F600 has one scalar value and
  the character count 2.
\<close>

theorem characters_scalar_values_counterexample:
  "characters (calculateTextMetrics sample_page (utf16_encode [0x1F600])) = 2
   \<and> length [0x1F600 :: nat] = 1"
  by (simp add: calculateTextMetrics_def utf16_encode_def utf16_unit_def Let_def)


lemma segments_Nil: "segments [] = [[]]"
  by (simp add: segments.simps)

lemma segments_ws: "is_ws c \<Longrightarrow> segments (c # cs) = [] # segments (dropWhile is_ws cs)"
  by (simp add: segments.simps[of "c # cs"])

lemma segments_nonws:
  assumes "\<not> is_ws c"
  shows "segments (c # cs) = (c # hd (segments cs)) # tl (segments cs)"
proof (cases "dropWhile (\<lambda>c. \<not> is_ws c) cs")
  case Nil
  have "segments cs = [cs]"
    by (subst segments.simps) (simp only: Nil list.case)
  moreover have "dropWhile (\<lambda>c. \<not> is_ws c) (c # cs) = []"
    using assms Nil by simp
  then have "segments (c # cs) = [c # cs]"
    by (subst segments.simps) (simp only: list.case)
  ultimately show ?thesis
    by simp
next
  case (Cons r rs)
  have "segments cs = takeWhile (\<lambda>c. \<not> is_ws c) cs # segments (dropWhile is_ws rs)"
    by (subst segments.simps) (simp only: Cons list.case)
  moreover have "dropWhile (\<lambda>c. \<not> is_ws c) (c # cs) = r # rs"
    using assms Cons by simp
  then have "segments (c # cs)
      = takeWhile (\<lambda>c. \<not> is_ws c) (c # cs) # segments (dropWhile is_ws rs)"
    by (subst segments.simps) (simp only: list.case)
  ultimately show ?thesis
    using assms by simp
qed

lemma segments_not_Nil: "segments t \<noteq> []"
  by (simp add: segments.simps[of t] split: list.splits)

lemma splitWs_segments: "splitWs seg t = (rev seg @ hd (segments t)) # tl (segments t)"
proof (induction seg t rule: splitWs.induct)
  case (1 seg)
  then show ?case by (simp add: segments_Nil)
next
  case (2 seg c cs)
  then show ?case
    by (simp add: segments_ws segments_nonws segments_not_Nil)
qed

lemma split_ws_segments: "split_ws t = segments t"
  by (simp add: split_ws_def splitWs_segments segments_not_Nil)

lemma splitWs_token:
  "\<forall>c\<in>set u. \<not> is_ws c \<Longrightarrow> splitWs seg (u @ r) = splitWs (rev u @ seg) r"
  by (induction u arbitrary: seg) simp_all

lemma splitWs_run:
  assumes "w \<noteq> []" and "\<forall>c\<in>set w. is_ws c" and "r = [] \<or> \<not> is_ws (hd r)"
  shows "splitWs seg (w @ r) = rev seg # splitWs [] r"
proof -
  obtain c w' where w: "w = c # w'"
    using assms(1) by (cases w) auto
  have "dropWhile is_ws (w' @ r) = dropWhile is_ws r"
    using assms(2) w by (simp add: dropWhile_append)
  also have "\<dots> = r"
    using assms(3) by (cases r) auto
  finally show ?thesis
    using assms(2) w by simp
qed

lemma split_ws_two_tokens:
  assumes "u \<noteq> []" "v \<noteq> []" "w \<noteq> []"
    and "\<forall>c\<in>set (u @ v). \<not> is_ws c" and "\<forall>c\<in>set w. is_ws c"
  shows "split_ws (u @ w @ v) = [u, v]"
proof -
  have "splitWs [] (u @ w @ v) = splitWs (rev u) (w @ v)"
    using assms(4) splitWs_token[of u "[]" "w @ v"] by simp
  also have "\<dots> = u # splitWs [] v"
    using assms splitWs_run[of w "v" "rev u"] by (cases v) auto
  also have "splitWs [] v = [v]"
    using assms(4) splitWs_token[of v "[]" "[]"] by simp
  finally show ?thesis
    by (simp add: split_ws_def)
qed

lemma dropWhile_ws_prefix:
  "\<forall>c\<in>set a. is_ws c \<Longrightarrow> m = [] \<or> \<not> is_ws (hd m) \<Longrightarrow> dropWhile is_ws (a @ m) = m"
  by (cases m) (auto simp: dropWhile_append)

lemma trim_surrounded:
  assumes "\<forall>c\<in>set a. is_ws c" and "\<forall>c\<in>set b. is_ws c"
    and "m = [] \<or> (\<not> is_ws (hd m) \<and> \<not> is_ws (last m))"
  shows "trim (a @ m @ b) = m"
proof (cases "m = []")
  case True
  then have "\<forall>c\<in>set (a @ m @ b). is_ws c"
    using assms by auto
  then have "dropWhile is_ws (a @ m @ b) = []"
    by (metis dropWhile_eq_Nil_conv)
  then have "trim (a @ m @ b) = []"
    unfolding trim_def by (simp only: rev.simps dropWhile.simps)
  then show ?thesis
    using True by simp
next
  case False
  then have 1: "dropWhile is_ws (a @ m @ b) = m @ b"
    using assms dropWhile_ws_prefix[of a "m @ b"] by simp
  have "dropWhile is_ws (rev b @ rev m) = rev m"
    using assms False by (intro dropWhile_ws_prefix) (simp_all add: hd_rev)
  then show ?thesis
    using 1 by (simp add: trim_def)
qed

text \<open>
  C6. The word count is 0 when the trimmed text is empty, and otherwise the number of
  segments of the trimmed text between runs of white space; it is 0 for a text of white
  space only, and 2 for two tokens separated by a run of white space of any length, with
  any white space around them.
\<close>

theorem words_segments:
  "words (calculateTextMetrics p text) = spec_words text
   \<and> ((\<forall>c\<in>set text. is_ws c) \<longrightarrow> words (calculateTextMetrics p text) = 0)
   \<and> (u \<noteq> [] \<and> v \<noteq> [] \<and> w \<noteq> []
        \<and> (\<forall>c\<in>set (u @ v). \<not> is_ws c) \<and> (\<forall>c\<in>set (a @ w @ b). is_ws c)
      \<longrightarrow> words (calculateTextMetrics p (a @ u @ w @ v @ b)) = 2)"
proof (intro conjI impI)
  show "words (calculateTextMetrics p text) = spec_words text"
    by (simp add: calculateTextMetrics_def spec_words_def split_ws_segments Let_def)
next
  assume "\<forall>c\<in>set text. is_ws c"
  then have "trim text = []"
    using trim_surrounded[of "text" "[]" "[]"] by simp
  then show "words (calculateTextMetrics p text) = 0"
    by (simp add: calculateTextMetrics_def Let_def)
next
  assume h: "u \<noteq> [] \<and> v \<noteq> [] \<and> w \<noteq> []
        \<and> (\<forall>c\<in>set (u @ v). \<not> is_ws c) \<and> (\<forall>c\<in>set (a @ w @ b). is_ws c)"
  let ?m = "u @ w @ v"
  have "\<not> is_ws (hd ?m) \<and> \<not> is_ws (last ?m)"
    using h by (cases u; cases v rule: rev_cases) auto
  then have "trim (a @ ?m @ b) = ?m"
    using h by (intro trim_surrounded) auto
  moreover have "split_ws ?m = [u, v]"
    using h by (intro split_ws_two_tokens) auto
  ultimately show "words (calculateTextMetrics p (a @ u @ w @ v @ b)) = 2"
    using h by (simp add: calculateTextMetrics_def Let_def)
qed

theorem words_segments_witness:
  "words (calculateTextMetrics sample_page (u16 '' hello   world'')) = 2
   \<and> words (calculateTextMetrics sample_page (u16 ''   '')) = 0
   \<and> spec_words (u16 ''   '') = 0"
  using words_segments[of sample_page "u16 ''   ''" "u16 ''hello''" "u16 ''world''"
      "u16 ''   ''" "u16 '' ''" "[]"]
  by (simp add: u16_def is_ws_def)

text \<open>
  C7 (as amended). When the font size read from the control is positive, the line count
  is max(1, ceil(characters / charsPerLine)) with
  charsPerLine = max(1, floor(containerWidth / (fontSize * 0.6))); then the divisor
  charsPerLine is at least 1 and the line count is at least 1.
\<close>

theorem lines_positive_fontSize:
  assumes "parseInt (fontSize_value p) = Num fs" and "0 < fs"
  shows "lines (calculateTextMetrics p text) =
           Num (real_of_int
             (spec_lines (characters (calculateTextMetrics p text)) (real (offsetWidth p)) fs))
         \<and> 1 \<le> spec_charsPerLine (real (offsetWidth p)) fs
         \<and> 1 \<le> spec_lines (characters (calculateTextMetrics p text)) (real (offsetWidth p)) fs"
proof -
  define q where "q = \<lfloor>real (offsetWidth p) / (fs * 0.6)\<rfloor>"
  define c where "c = \<lceil>real (length text) / real_of_int (max 1 q)\<rceil>"
  have q0: "0 \<le> q"
    using assms(2) by (simp add: q_def)
  have "0 \<le> real (length text) / real_of_int (max 1 q)"
    by simp
  then have c0: "0 \<le> c"
    unfolding c_def by (metis ceiling_mono ceiling_zero)
  have "js_floor (js_div (Num (real (offsetWidth p))) (js_mul (Num fs) (Num 0.6)))
      = Num (real_of_int q)"
    using assms(2) by (simp add: q_def)
  then have cpl:
    "js_or (js_floor (js_div (Num (real (offsetWidth p))) (js_mul (Num fs) (Num 0.6))))
       (Num 1) = Num (real_of_int (max 1 q))"
    using q0 by (simp add: js_or_def max_def)
  have "js_ceil (js_div (Num (real (length text))) (Num (real_of_int (max 1 q))))
      = Num (real_of_int c)"
    by (simp add: c_def max_def)
  then have ln:
    "js_or (js_ceil (js_div (Num (real (length text))) (Num (real_of_int (max 1 q))))) (Num 1)
       = Num (real_of_int (max 1 c))"
    using c0 by (simp add: js_or_def max_def)
  have "lines (calculateTextMetrics p text) = Num (real_of_int (max 1 c))"
    unfolding calculateTextMetrics_def Let_def assms(1) cpl ln by simp
  moreover have "characters (calculateTextMetrics p text) = length text"
    by (simp add: calculateTextMetrics_def Let_def)
  ultimately show ?thesis
    by (simp add: spec_lines_def spec_charsPerLine_def q_def c_def)
qed

theorem lines_positive_fontSize_witness:
  "lines (calculateTextMetrics sample_page (replicate 250 0x61)) = Num 5"
proof -
  have h: "parseInt (fontSize_value sample_page) = Num 18"
    by (simp add: sample_page_def parse_defs)
  show ?thesis
    using lines_positive_fontSize[OF h, of "replicate 250 0x61"]
    by (simp add: spec_lines_def spec_charsPerLine_def calculateTextMetrics_def
        sample_page_def Let_def)
qed

text \<open>
  C7 as stated fails for a negative font size: the guard \<open>|| 1\<close> replaces 0 and
  \<open>NaN\<close> only. With the font size -10, the width 600 and 250 characters the line count
  is -2, where the formula of the claim gives 250.
\<close>

theorem lines_negative_fontSize_counterexample:
  "lines (calculateTextMetrics (sample_page\<lparr>fontSize_value := ''-10''\<rparr>) (replicate 250 0x61))
     = Num (- 2)
   \<and> spec_lines 250 600 (- 10) = 250"
  by (simp add: calculateTextMetrics_def sample_page_def parse_defs js_or_def
      spec_lines_def spec_charsPerLine_def)

section \<open>Lines and declarations of the exported text\<close>

lemma split_unit_no_sep: "sep \<notin> set l \<Longrightarrow> split_unit sep l = [l]"
  by (induction l) auto

lemma split_unit_append:
  "sep \<notin> set l \<Longrightarrow> split_unit sep (l @ sep # rest) = l # split_unit sep rest"
  by (induction l) auto

lemma split_unit_join:
  "ls \<noteq> [] \<Longrightarrow> \<forall>l\<in>set ls. sep \<notin> set l \<Longrightarrow> split_unit sep (join [sep] ls) = ls"
proof (induction "[sep]" ls rule: join.induct)
  case 1
  then show ?case by simp
next
  case (2 x)
  then show ?case by (simp add: split_unit_no_sep)
next
  case (3 x y ys)
  then show ?case by (simp add: split_unit_append)
qed

lemma digit_cases: "(k::nat) < 10 \<Longrightarrow> k \<in> {0, 1, 2, 3, 4, 5, 6, 7, 8, 9}"
  by auto

lemma digit_char_digit:
  "is_digit (digit_char d) \<and> digit_val (digit_char d) = d mod 10 \<and> digit_char d \<noteq> CHR 0x0A"
proof -
  have "d mod 10 \<in> {0, 1, 2, 3, 4, 5, 6, 7, 8, 9}"
    by (rule digit_cases) simp
  then show ?thesis
    unfolding digit_char_def by (auto simp: is_digit_def digit_val_def)
qed

lemma digit_char_not_newline: "digit_char d \<noteq> CHR 0x0A"
  by (simp add: digit_char_digit)

lemma single_line_digits_of: "single_line (digits_of n)"
proof (induction n rule: digits_of.induct)
  case (1 n)
  then show ?case
    by (subst digits_of.simps) (simp add: single_line_def digit_char_not_newline[symmetric])
qed

lemma single_line_frac_digits: "single_line (frac_digits k f)"
proof (induction k f rule: frac_digits.induct)
  case (1 k f)
  then show ?case
    by (subst frac_digits.simps) (simp add: single_line_def digit_char_not_newline[symmetric])
qed

lemma single_line_numberToString: "single_line (numberToString x)"
  using single_line_digits_of single_line_frac_digits
  by (cases x) (simp_all add: single_line_def)

lemma single_line_featureMap: "single_line (to_string (featureMap f))"
  by (auto simp: single_line_def featureMap_def featureTable_def objectPrototype_def)

lemma single_line_join:
  "single_line sep \<Longrightarrow> \<forall>x\<in>set xs. single_line x \<Longrightarrow> single_line (join sep xs)"
  by (induction sep xs rule: join.induct) (simp_all add: single_line_def)

lemma single_line_fontFeatures: "single_line (fontFeatures features)"
  unfolding fontFeatures_def
  by (rule single_line_join) (auto simp: single_line_def single_line_featureMap[unfolded single_line_def])

text \<open>The physical lines of the text that \<open>generateCSS\<close> returns.\<close>

lemma lines_generateCSS:
  assumes "plain_controls c" and "single_line (currentAlignment e)"
  shows "split_unit (CHR 0x0A) (generateCSS c e features) =
     [''/* Advanced Font Rendering Styles */'',
      ''.custom-typography {'',
      ''    font-family: '' @ fontFamily c @ '';'',
      ''    font-size: '' @ fontSize c @ ''px;'',
      ''    font-weight: '' @ fontWeight c @ '';'',
      ''    letter-spacing: '' @ letterSpacing c @ ''px;'',
      ''    line-height: '' @ lineHeight c @ '';'',
      ''    word-spacing: '' @ wordSpacing c @ ''px;'',
      ''    text-align: '' @ currentAlignment e @ '';'',
      ''    '' @ (if fontFeatures features \<noteq> []
                  then ''font-feature-settings: '' @ fontFeatures features @ '';'' else []),
      ''    '' @ (if hyphenation e then ''hyphens: auto;'' else [])]
     @ (if layoutOptimization e
        then [''    '',
              ''    text-rendering: optimizeLegibility;'',
              ''    font-optical-sizing: auto;'',
              ''    font-variant-ligatures: common-ligatures contextual;'']
        else [''    ''])
     @ [''}'',
        [],
        ''/* Responsive adjustments */'',
        ''@media (max-width: 768px) {'',
        ''    .custom-typography {'',
        ''        font-size: ''
          @ numberToString (js_max (Num 14) (js_mul (parseInt (fontSize c)) (Num 0.9)))
          @ ''px;'',
        ''        line-height: ''
          @ numberToString (js_max (Num 1.2)
              (js_mul (parseFloat (lineHeight c)) (Num 0.95)))
          @ '';'',
        ''    }'',
        ''}'',
        [],
        ''@media (max-width: 480px) {'',
        ''    .custom-typography {'',
        ''        font-size: ''
          @ numberToString (js_max (Num 12) (js_mul (parseInt (fontSize c)) (Num 0.8)))
          @ ''px;'',
        ''        letter-spacing: ''
          @ numberToString (js_max (Num 0)
              (js_mul (parseFloat (letterSpacing c)) (Num 0.8)))
          @ ''px;'',
        ''    }'',
        ''}'']"
    (is "_ = ?ls")
proof -
  have 1: "generateCSS c e features = join [CHR 0x0A] ?ls"
    by (simp add: generateCSS_def template_def Let_def)
  have 2: "?ls \<noteq> []"
    by simp
  have 3: "\<forall>l\<in>set ?ls. CHR 0x0A \<notin> set l"
    using assms single_line_fontFeatures[of features] single_line_numberToString
    by (simp add: plain_controls_def single_line_def)
  show ?thesis
    unfolding 1 using 2 3 by (rule split_unit_join)
qed

lemmas decl_defs =
  unindent_def parse_declaration_def declaration_value_def Let_def butlast_append

text \<open>The declarations of the three blocks.\<close>

lemma main_rule_declarations:
  assumes "plain_controls c" and "single_line (currentAlignment e)"
  shows "block_declarations main_rule (generateCSS c e features) =
     [(''font-family'', fontFamily c),
      (''font-size'', fontSize c @ ''px''),
      (''font-weight'', fontWeight c),
      (''letter-spacing'', letterSpacing c @ ''px''),
      (''line-height'', lineHeight c),
      (''word-spacing'', wordSpacing c @ ''px''),
      (''text-align'', currentAlignment e)]
     @ (if fontFeatures features \<noteq> [] then [(''font-feature-settings'', fontFeatures features)]
        else [])
     @ (if hyphenation e then [(''hyphens'', ''auto'')] else [])
     @ (if layoutOptimization e
        then [(''text-rendering'', ''optimizeLegibility''),
              (''font-optical-sizing'', ''auto''),
              (''font-variant-ligatures'', ''common-ligatures contextual'')]
        else [])"
  unfolding block_declarations_def lines_generateCSS[OF assms]
  by (simp add: decl_defs main_rule_def)



section \<open>Decimal digits\<close>
















section \<open>Properties of the feature settings\<close>

lemma featureMap_tag: "featureMap (tag_name t) = JString (spec_featureTable t)"
  by (cases t) (simp_all add: featureMap_def featureTable_def)

lemma push_loop:
  "foldl (\<lambda>features feature.
            if truthy (featureMap feature) then features @ [featureMap feature] else features)
         acc fs
     = acc @ filter truthy (map featureMap fs)"
  by (induction fs arbitrary: acc) simp_all

lemma spec_featureTable_nonempty: "spec_featureTable t \<noteq> []"
  by (cases t) simp_all

lemma filter_tags:
  "map to_string (filter truthy (map (featureMap \<circ> tag_name) tags)) = map spec_featureTable tags"
  by (induction tags) (simp_all add: featureMap_tag spec_featureTable_nonempty)

lemma join_nonempty: "xs \<noteq> [] \<Longrightarrow> hd xs \<noteq> [] \<Longrightarrow> join sep xs \<noteq> []"
  by (cases "(sep, xs)" rule: join.cases) simp_all

lemma live_fontFeatureSettings:
  "projectLiveStyle e p input ''font-feature-settings'' =
     Some (let joined = join '', ''
                 (map to_string (filter truthy (map featureMap (activeFeatures e))))
           in if joined \<noteq> [] then joined else ''normal'')"
  by (simp add: projectLiveStyle_def updateRendering_def applyLayoutOptimizations_def
      applyOpenTypeFeatures_def push_loop Let_def)

lemma plain_getControlValues: "plain_page p \<Longrightarrow> plain_controls (getControlValues p)"
  by (simp add: plain_page_def plain_controls_def getControlValues_def or_default_def single_line_def)

lemma plain_sample_page: "plain_page sample_page"
  by (simp add: plain_page_def sample_page_def single_line_def)

lemma fontFeatures_loop:
  "join '', '' (map to_string
     (foldl (\<lambda>features feature.
               if truthy (featureMap feature) then features @ [featureMap feature] else features)
            [] fs))
   = fontFeatures fs"
  by (simp add: push_loop fontFeatures_def)

lemma live_style:
  "projectLiveStyle e p input =
     (\<lambda>k. if k = ''font-variant-ligatures''
             then Some (if layoutOptimization e then ''common-ligatures contextual'' else ''normal'')
           else if k = ''font-optical-sizing''
             then Some (if layoutOptimization e then ''auto'' else ''none'')
           else if k = ''text-rendering''
             then Some (if layoutOptimization e then ''optimizeLegibility'' else ''auto'')
           else if k = ''hyphenate-character''
             then (if hyphenation e then Some hyphen else None)
           else if k = ''hyphens''
             then Some (if hyphenation e then ''auto'' else ''manual'')
           else if k = ''font-feature-settings''
             then Some (if fontFeatures (activeFeatures e) \<noteq> []
                        then fontFeatures (activeFeatures e) else ''normal'')
           else if k = ''text-align'' then Some (currentAlignment e)
           else if k = ''word-spacing'' then Some (wordSpacing (getControlValues p) @ ''px'')
           else if k = ''line-height'' then Some (lineHeight (getControlValues p))
           else if k = ''letter-spacing'' then Some (letterSpacing (getControlValues p) @ ''px'')
           else if k = ''font-weight'' then Some (fontWeight (getControlValues p))
           else if k = ''font-size'' then Some (fontSize (getControlValues p) @ ''px'')
           else if k = ''font-family'' then Some (fontFamily (getControlValues p))
           else None)"
  by (rule ext)
     (simp add: projectLiveStyle_def updateRendering_def applyLayoutOptimizations_def
        applyOpenTypeFeatures_def applyBasicStyling_def fontFeatures_loop Let_def)

text \<open>
  C5. For every list of feature tags, in insertion order, the live value of
  \<open>font-feature-settings\<close> is the settings of the tags from the fixed table, joined with
  a comma and a space, and \<open>normal\<close> for the empty list; for kerning then ligatures it is
  \<open>"kern" 1, "liga" 1, "clig" 1\<close>.
\<close>

theorem fontFeatureSettings_table:
  "projectLiveStyle (e\<lparr>activeFeatures := map tag_name tags\<rparr>) p input ''font-feature-settings''
     = Some (spec_fontFeatureSettings tags)
   \<and> projectLiveStyle (e\<lparr>activeFeatures := set_add ''ligatures'' (set_add ''kerning'' [])\<rparr>)
        p input ''font-feature-settings''
     = Some ''\"kern\" 1, \"liga\" 1, \"clig\" 1''"
proof
  show "projectLiveStyle (e\<lparr>activeFeatures := map tag_name tags\<rparr>) p input
          ''font-feature-settings''
     = Some (spec_fontFeatureSettings tags)"
  proof (cases tags)
    case Nil
    then show ?thesis
      by (simp add: live_fontFeatureSettings spec_fontFeatureSettings_def)
  next
    case (Cons t ts)
    then have "join '', '' (map spec_featureTable tags) \<noteq> []"
      by (intro join_nonempty) (simp_all add: spec_featureTable_nonempty)
    moreover have "tags \<noteq> []"
      using Cons by simp
    ultimately show ?thesis
      by (simp add: live_fontFeatureSettings spec_fontFeatureSettings_def filter_tags Let_def)
  qed
  show "projectLiveStyle (e\<lparr>activeFeatures := set_add ''ligatures'' (set_add ''kerning'' [])\<rparr>)
          p input ''font-feature-settings''
     = Some ''\"kern\" 1, \"liga\" 1, \"clig\" 1''"
    by (simp add: live_fontFeatureSettings set_add_def featureMap_def featureTable_def)
qed

theorem fontFeatureSettings_table_witness:
  "projectLiveStyle (new_engine\<lparr>activeFeatures := [''tabularNums'', ''kerning'']\<rparr>)
      sample_page [] ''font-feature-settings''
     = Some ''\"tnum\" 1, \"lnum\" 1, \"kern\" 1''"
  using fontFeatureSettings_table[where e = new_engine and tags = "[TabularNums, Kerning]"
      and p = sample_page and input = "[]"]
  by (simp add: spec_fontFeatureSettings_def)

text \<open>A tag whose lookup gives \<open>undefined\<close> is skipped.\<close>

lemma undefined_tag_ignored:
  "featureMap f = JUndefined \<Longrightarrow>
   projectLiveStyle (e\<lparr>activeFeatures := fs1 @ [f] @ fs2\<rparr>) p input ''font-feature-settings''
     = projectLiveStyle (e\<lparr>activeFeatures := fs1 @ fs2\<rparr>) p input ''font-feature-settings''"
  by (simp add: live_fontFeatureSettings)

text \<open>
  C8. A tag that the lookup in \<open>featureMap\<close> does not find contributes nothing. The
  lookup finds more than the six tags, though: a tag that names a member of
  \<open>Object.prototype\<close>, such as \<open>toString\<close>, is found, passes the test for truth and
  contributes the text of that member to the value, in the live style and in the export.
\<close>

theorem inherited_key_not_ignored:
  "projectLiveStyle (new_engine\<lparr>activeFeatures := [''kerning'', ''toString'']\<rparr>)
      sample_page [] ''font-feature-settings''
     = Some ''\"kern\" 1, function toString() { [native code] }''
   \<and> map_of (block_declarations main_rule
         (exportCSS (new_engine\<lparr>activeFeatures := [''kerning'', ''toString'']\<rparr>) sample_page))
       ''font-feature-settings''
     = Some ''\"kern\" 1, function toString() { [native code] }''"
proof -
  have "single_line (currentAlignment (new_engine\<lparr>activeFeatures := [''kerning'', ''toString'']\<rparr>))"
    by (simp add: new_engine_def single_line_def)
  then show ?thesis
    unfolding exportCSS_def main_rule_declarations[OF plain_getControlValues[OF plain_sample_page]
        \<open>single_line (currentAlignment (new_engine\<lparr>activeFeatures := [''kerning'', ''toString'']\<rparr>))\<close>]
    by (simp add: live_style new_engine_def fontFeatures_def featureMap_def
        featureTable_def objectPrototype_def)
qed

section \<open>Properties of the CSS export\<close>

text \<open>
  C1 (as amended). When no control value contains a line break, the rule block of
  \<open>.custom-typography\<close> holds the seven basic properties; \<open>font-feature-settings\<close> only
  when the features give a non-empty text; \<open>hyphens\<close> only when hyphenation is on; the
  three layout properties only when layout optimization is on. Every declaration of the
  block has the value of the live style. When the features give no text, hyphenation is
  off or layout optimization is off, the live style still has \<open>font-feature-settings:
  normal\<close>, \<open>hyphens: manual\<close>, and \<open>text-rendering: auto\<close>, \<open>font-optical-sizing: none\<close>,
  \<open>font-variant-ligatures: normal\<close>, which the block omits.
\<close>

theorem exported_rule_within_live_style:
  assumes "plain_page p" and "single_line (currentAlignment e)"
  shows "map fst (block_declarations main_rule (exportCSS e p)) =
           [''font-family'', ''font-size'', ''font-weight'', ''letter-spacing'', ''line-height'',
            ''word-spacing'', ''text-align'']
           @ (if fontFeatures (activeFeatures e) \<noteq> [] then [''font-feature-settings''] else [])
           @ (if hyphenation e then [''hyphens''] else [])
           @ (if layoutOptimization e
              then [''text-rendering'', ''font-optical-sizing'', ''font-variant-ligatures'']
              else [])
         \<and> (\<forall>(prop, value) \<in> set (block_declarations main_rule (exportCSS e p)).
               projectLiveStyle e p input prop = Some value)
         \<and> (fontFeatures (activeFeatures e) = [] \<longrightarrow>
               projectLiveStyle e p input ''font-feature-settings'' = Some ''normal'')
         \<and> (\<not> hyphenation e \<longrightarrow> projectLiveStyle e p input ''hyphens'' = Some ''manual'')
         \<and> (\<not> layoutOptimization e \<longrightarrow>
               projectLiveStyle e p input ''text-rendering'' = Some ''auto''
               \<and> projectLiveStyle e p input ''font-optical-sizing'' = Some ''none''
               \<and> projectLiveStyle e p input ''font-variant-ligatures'' = Some ''normal'')"
  unfolding exportCSS_def main_rule_declarations[OF plain_getControlValues[OF assms(1)] assms(2)]
  by (simp add: live_style)

theorem exported_rule_within_live_style_witness:
  "map fst (block_declarations main_rule (exportCSS (new_engine\<lparr>hyphenation := True\<rparr>) sample_page))
     = [''font-family'', ''font-size'', ''font-weight'', ''letter-spacing'', ''line-height'',
        ''word-spacing'', ''text-align'', ''font-feature-settings'', ''hyphens'']
   \<and> projectLiveStyle (new_engine\<lparr>hyphenation := True\<rparr>) sample_page [] ''text-rendering''
       = Some ''auto''"
proof -
  have "single_line (currentAlignment (new_engine\<lparr>hyphenation := True\<rparr>))"
    by (simp add: new_engine_def single_line_def)
  moreover have "fontFeatures (activeFeatures (new_engine\<lparr>hyphenation := True\<rparr>)) \<noteq> []"
    by (simp add: new_engine_def fontFeatures_def featureMap_def featureTable_def)
  ultimately show ?thesis
    using exported_rule_within_live_style[OF plain_sample_page,
        of "new_engine\<lparr>hyphenation := True\<rparr>" "[]"]
    by (simp add: new_engine_def)
qed

theorem exported_rule_same_properties_counterexample:
  "\<not> same_properties (block_declarations main_rule (exportCSS new_engine sample_page))
       (projectLiveStyle new_engine sample_page [])"
proof
  assume "same_properties (block_declarations main_rule (exportCSS new_engine sample_page))
       (projectLiveStyle new_engine sample_page [])"
  then have "((''hyphens'', ''manual'')
        \<in> set (block_declarations main_rule (exportCSS new_engine sample_page)))
      = (projectLiveStyle new_engine sample_page [] ''hyphens'' = Some ''manual'')"
    unfolding same_properties_def by blast
  moreover have "single_line (currentAlignment new_engine)"
    by (simp add: new_engine_def single_line_def)
  ultimately show False
    unfolding exportCSS_def main_rule_declarations[OF plain_getControlValues[OF plain_sample_page]
        \<open>single_line (currentAlignment new_engine)\<close>]
    by (simp add: live_style new_engine_def)
qed









end
